theory Spec2Isabelle
  imports Complex_Main "HOL-Library.Char_ord" "HOL-Library.List_Lexorder"
begin

section \<open>Python values, exceptions and tables\<close>

text \<open>
  The program is one Streamlit script, \<^verbatim>\<open>app.py\<close>. It loads two tables and a
  pickled model, and renders one of four pages. The values that flow through the
  prediction page are Python scalars: \<^verbatim>\<open>None\<close>, strings, integers and floats.
  Floats are modelled as reals: rounding, overflow to \<^verbatim>\<open>inf\<close> and \<^verbatim>\<open>nan\<close> are
  outside the model.
\<close>

datatype pyval = PyNone | PyStr string | PyInt int | PyFloat real

text \<open>
  A raised exception, identified by the name of its class; for an exception that
  numpy raises, the built-in class it derives from.
\<close>

datatype py_exception = Raised string

text \<open>
  One row of \<^verbatim>\<open>data/final_crop.csv\<close>, with the columns the script reads:
  \<^verbatim>\<open>df["state"]\<close>, \<^verbatim>\<open>df["crop_type"]\<close>, \<^verbatim>\<open>df["year"]\<close>, \<^verbatim>\<open>df["production"]\<close>.
\<close>

record crop_record =
  state :: string
  crop_type :: string
  year :: int
  production :: real

text \<open>
  One row of \<^verbatim>\<open>data/state_clusters.csv\<close>: state, avg_production, growth_rate,
  variability, cluster_label.
\<close>

type_synonym cluster_summary = "string \<times> real \<times> real \<times> real \<times> string"

text \<open>
  A \<^verbatim>\<open>pd.DataFrame\<close> built from a dict of columns: the column names in insertion
  order, each with its list of cells.
\<close>

type_synonym dataframe = "(string \<times> pyval list) list"

text \<open>
  The unpickled model is opaque. Its one capability \<^verbatim>\<open>model.predict(frame)\<close> either
  raises or returns a sequence; it is taken as a function of the frame it is given.
\<close>

type_synonym model = "dataframe \<Rightarrow> py_exception + pyval list"

text \<open>
  The script's variables: the three objects loaded at the top
  (\<^verbatim>\<open>df = load_data()\<close>, \<^verbatim>\<open>cluster_df = load_clusters()\<close>, \<^verbatim>\<open>model = load_model()\<close>)
  and the three names the prediction block binds. A name not yet bound is \<open>None\<close>.
\<close>

record script =
  df :: "crop_record list"
  cluster_df :: "cluster_summary list"
  model :: model
  input_df :: "dataframe option"
  log_prediction :: "pyval list option"
  prediction :: "real option"

section \<open>The prediction block\<close>

text \<open>\<^verbatim>\<open>np.expm1\<close> on a float: \<open>exp y - 1\<close>.\<close>

definition expm1 :: "real \<Rightarrow> real" where
  "expm1 y = exp y - 1"

text \<open>
  \<^verbatim>\<open>np.expm1(v)\<close> on a Python scalar. An integer is converted to a float first;
  for a string or \<^verbatim>\<open>None\<close> the function has no implementation and numpy raises a
  \<^verbatim>\<open>TypeError\<close>.
\<close>

definition np_expm1 :: "pyval \<Rightarrow> py_exception + real" where
  "np_expm1 v =
     (case v of
        PyFloat y \<Rightarrow> Inr (expm1 y)
      | PyInt n \<Rightarrow> Inr (expm1 (of_int n))
      | PyStr s \<Rightarrow> Inl (Raised ''TypeError'')
      | PyNone \<Rightarrow> Inl (Raised ''TypeError''))"

text \<open>\<^verbatim>\<open>xs[0]\<close>: the first element, \<^verbatim>\<open>IndexError\<close> on an empty sequence.\<close>

definition item0 :: "'a list \<Rightarrow> py_exception + 'a" where
  "item0 xs = (case xs of [] \<Rightarrow> Inl (Raised ''IndexError'') | x # _ \<Rightarrow> Inr x)"

text \<open>
  \<^verbatim>\<open>pd.DataFrame({"state": [state], "crop_type": [crop], "year": [year]})\<close>
\<close>

definition DataFrame :: "pyval \<Rightarrow> pyval \<Rightarrow> pyval \<Rightarrow> dataframe" where
  "DataFrame st crop yr = [(''state'', [st]), (''crop_type'', [crop]), (''year'', [yr])]"

text \<open>
  The body of \<^verbatim>\<open>if st.button("Predict Production"):\<close> up to the value handed to
  \<^verbatim>\<open>st.success\<close>:
  \<^verbatim>\<open>
  input_df = pd.DataFrame({...})
  log_prediction = model.predict(input_df)
  prediction = np.expm1(log_prediction[0])
  \<close>
  There is no \<^verbatim>\<open>try\<close> in the script: an exception leaves the block at the statement
  that raised it, with the names bound so far. The result is the exception or the
  value of \<^verbatim>\<open>prediction\<close>, together with the script's variables afterwards.
\<close>

definition predict_block ::
  "script \<Rightarrow> pyval \<Rightarrow> pyval \<Rightarrow> pyval \<Rightarrow> (py_exception + real) \<times> script" where
  "predict_block g st crop yr =
     (let frame = DataFrame st crop yr;
          g1 = g\<lparr>input_df := Some frame\<rparr>
      in case model g1 frame of
           Inl e \<Rightarrow> (Inl e, g1)
         | Inr lp \<Rightarrow>
             (let g2 = g1\<lparr>log_prediction := Some lp\<rparr>
              in case item0 lp of
                   Inl e \<Rightarrow> (Inl e, g2)
                 | Inr y \<Rightarrow>
                     (case np_expm1 y of
                        Inl e \<Rightarrow> (Inl e, g2)
                      | Inr p \<Rightarrow> (Inr p, g2\<lparr>prediction := Some p\<rparr>))))"

text \<open>
  The stub models of the specification's tests: a model whose \<^verbatim>\<open>predict\<close> gives the
  same outcome for every frame.
\<close>

definition stub_model :: "py_exception + pyval list \<Rightarrow> model" where
  "stub_model r frame = r"

text \<open>A freshly started script run with the given tables and model.\<close>

definition loaded :: "crop_record list \<Rightarrow> cluster_summary list \<Rightarrow> model \<Rightarrow> script" where
  "loaded d c m =
     \<lparr>df = d, cluster_df = c, model = m,
      input_df = None, log_prediction = None, prediction = None\<rparr>"

section \<open>The prediction page's widgets\<close>

text \<open>
  \<^verbatim>\<open>Series.unique()\<close>: the distinct values of a column, in order of first
  appearance. \<open>seen\<close> holds the values already emitted.
\<close>

fun unique_from :: "'a list \<Rightarrow> 'a list \<Rightarrow> 'a list" where
  "unique_from seen [] = []"
| "unique_from seen (x # xs) =
     (if x \<in> set seen then unique_from seen xs else x # unique_from (x # seen) xs)"

definition unique :: "'a list \<Rightarrow> 'a list" where
  "unique xs = unique_from [] xs"

text \<open>
  Python's \<^verbatim>\<open>sorted\<close> on strings is \<open>sort\<close> on \<open>string\<close>: strings are ordered
  lexicographically by character, and the byte order of UTF-8 follows the order of
  code points.
\<close>

text \<open>
  What the user did with the page's widgets in this run: the index picked in each
  select box and the value picked on the slider (\<open>None\<close> while a widget is
  untouched), and whether the button was clicked.
\<close>

record widget_input =
  picked_state :: "nat option"
  picked_crop :: "nat option"
  picked_year :: "int option"
  button :: bool

text \<open>
  \<^verbatim>\<open>st.selectbox(label, options)\<close>: the option picked, the first option while
  untouched, \<^verbatim>\<open>None\<close> when there is no option. The browser can only send the index
  of an option it shows; any other index counts as untouched.
\<close>

definition selectbox :: "string list \<Rightarrow> nat option \<Rightarrow> pyval" where
  "selectbox opts picked =
     (case opts of
        [] \<Rightarrow> PyNone
      | _ \<Rightarrow>
          (case picked of
             None \<Rightarrow> PyStr (opts ! 0)
           | Some i \<Rightarrow> if i < length opts then PyStr (opts ! i) else PyStr (opts ! 0)))"

text \<open>
  \<^verbatim>\<open>st.slider(label, min_value, max_value, value)\<close> with integer arguments.
  Streamlit does not reject a default \<open>value\<close> outside the bounds it is given: it
  adjusts the bounds so that they contain it. It first replaces \<open>min_value\<close> by
  the smaller of the two bounds and \<open>max_value\<close> by the larger of the new
  \<open>min_value\<close> and \<open>max_value\<close>, then lowers \<open>min_value\<close> to the default when
  the default is smaller and raises \<open>max_value\<close> to it when it is larger. The
  rendered slider ranges over the adjusted bounds.
\<close>

definition slider_bounds :: "int \<Rightarrow> int \<Rightarrow> int \<Rightarrow> int \<times> int" where
  "slider_bounds min_value max_value v =
     (let min_value1 = min min_value max_value;
          max_value1 = max min_value1 max_value
      in (min v min_value1, max v max_value1))"

text \<open>
  The slider returns the value picked, the default while untouched. The browser can
  only send a value of the rendered range; any other value counts as untouched.
\<close>

definition slider :: "int \<Rightarrow> int \<Rightarrow> int \<Rightarrow> int option \<Rightarrow> int" where
  "slider min_value max_value v picked =
     (case picked of
        None \<Rightarrow> v
      | Some u \<Rightarrow>
          if fst (slider_bounds min_value max_value v) \<le> u \<and>
             u \<le> snd (slider_bounds min_value max_value v)
          then u else v)"

text \<open>
  \<^verbatim>\<open>Series.min()\<close> and \<^verbatim>\<open>Series.max()\<close> of an integer column. On an empty column
  pandas gives \<^verbatim>\<open>nan\<close>, here \<open>None\<close>; \<^verbatim>\<open>nan + 3\<close> is \<^verbatim>\<open>nan\<close>; and \<^verbatim>\<open>int(nan)\<close> raises
  \<^verbatim>\<open>ValueError\<close>.
\<close>

definition series_min :: "int list \<Rightarrow> int option" where
  "series_min xs = (case xs of [] \<Rightarrow> None | x # rest \<Rightarrow> Some (fold min rest x))"

definition series_max :: "int list \<Rightarrow> int option" where
  "series_max xs = (case xs of [] \<Rightarrow> None | x # rest \<Rightarrow> Some (fold max rest x))"

definition py_int :: "int option \<Rightarrow> py_exception + int" where
  "py_int x = (case x of None \<Rightarrow> Inl (Raised ''ValueError'') | Some n \<Rightarrow> Inr n)"

text \<open>
  The three widgets of the prediction page, in the order the script runs them:
  \<^verbatim>\<open>
  state = st.selectbox("State", sorted(df["state"].unique()))
  crop = st.selectbox("Crop Type", sorted(df["crop_type"].unique()))
  year = st.slider("Year", int(df["year"].min()), int(df["year"].max()+3), 2023)
  \<close>
  The result is the exception raised, or the values of \<^verbatim>\<open>state\<close>, \<^verbatim>\<open>crop\<close> and
  \<^verbatim>\<open>year\<close>.
\<close>

definition prediction_request ::
  "crop_record list \<Rightarrow> widget_input \<Rightarrow> py_exception + (pyval \<times> pyval \<times> pyval)" where
  "prediction_request d ui =
     (let st = selectbox (sort (unique (map state d))) (picked_state ui);
          crop = selectbox (sort (unique (map crop_type d))) (picked_crop ui)
      in case py_int (series_min (map year d)) of
           Inl e \<Rightarrow> Inl e
         | Inr lo \<Rightarrow>
             (case py_int (map_option (\<lambda>m. m + 3) (series_max (map year d))) of
                Inl e \<Rightarrow> Inl e
              | Inr hi \<Rightarrow> Inr (st, crop, PyInt (slider lo hi 2023 (picked_year ui)))))"

text \<open>
  What the page shows after the widgets. \<^verbatim>\<open>st.success\<close> receives the prediction
  formatted with two decimals; the event keeps the number that is formatted.
\<close>

datatype ui_event = Success real | Caption string

text \<open>
  The branch \<^verbatim>\<open>elif page == "Production Prediction"\<close>: the widgets, then, when the
  button was clicked, the prediction block and the two messages. The static header
  and markdown are left out.
\<close>

definition prediction_page ::
  "script \<Rightarrow> widget_input \<Rightarrow> (py_exception + ui_event list) \<times> script" where
  "prediction_page g ui =
     (case prediction_request (df g) ui of
        Inl e \<Rightarrow> (Inl e, g)
      | Inr (st, crop, yr) \<Rightarrow>
          if button ui then
            (case predict_block g st crop yr of
               (Inl e, g') \<Rightarrow> (Inl e, g')
             | (Inr p, g') \<Rightarrow>
                 (Inr [Success p,
                       Caption ''Prediction converted back from log scale to actual production value.''],
                  g'))
          else (Inr [], g))"

section \<open>The exploratory page\<close>

text \<open>
  \<^verbatim>\<open>np.log10\<close> on a float. At 0 numpy gives \<^verbatim>\<open>-inf\<close> and below 0 it gives \<^verbatim>\<open>nan\<close>,
  with a warning and no exception; \<open>None\<close> stands for both.
\<close>

definition np_log10 :: "real \<Rightarrow> real option" where
  "np_log10 x = (if 0 < x then Some (log 10 x) else None)"

text \<open>
  \<^verbatim>\<open>
  filtered = df[df["crop_type"] == crop_selection]
  filtered["log_production"] = np.log10(filtered["production"] + 1)
  \<close>
  Each selected row with its new \<^verbatim>\<open>log_production\<close> cell.
\<close>

definition filtered :: "crop_record list \<Rightarrow> string \<Rightarrow> (crop_record \<times> real option) list" where
  "filtered d crop_selection =
     map (\<lambda>r. (r, np_log10 (production r + 1)))
       (filter (\<lambda>r. crop_type r = crop_selection) d)"

text \<open>
  \<^verbatim>\<open>
  state_total = df.groupby("state")["production"].sum().reset_index()
  state_total["log_total"] = np.log10(state_total["production"] + 1)
  \<close>
  One row per state, in sorted order of the group keys: the state, its summed
  production and the new \<^verbatim>\<open>log_total\<close> cell.
\<close>

definition state_total :: "crop_record list \<Rightarrow> (string \<times> real \<times> real option) list" where
  "state_total d =
     map (\<lambda>s. let total = sum_list (map production (filter (\<lambda>r. state r = s) d))
              in (s, total, np_log10 (total + 1)))
       (sort (unique (map state d)))"

section \<open>The output transform\<close>

lemma predict_block_float:
  assumes "model g (DataFrame st crop yr) = Inr (PyFloat y # ys)"
  shows "predict_block g st crop yr =
           (Inr (expm1 y),
            g\<lparr>input_df := Some (DataFrame st crop yr),
              log_prediction := Some (PyFloat y # ys),
              prediction := Some (expm1 y)\<rparr>)"
  using assms by (simp add: predict_block_def Let_def item0_def np_expm1_def)

text \<open>
  C1. Whenever the model returns a sequence whose first element is the float \<open>y\<close>,
  the block produces \<open>expm1 y = exp y - 1\<close>, whatever the request and whatever the
  rest of the sequence; a model that returns \<open>[0.0]\<close> gives \<open>0.0\<close>.
\<close>

theorem prediction_is_expm1_of_first:
  "(model g (DataFrame st crop yr) = Inr (PyFloat y # ys) \<longrightarrow>
      fst (predict_block g st crop yr) = Inr (exp y - 1)) \<and>
   (model g = stub_model (Inr [PyFloat 0]) \<longrightarrow>
      fst (predict_block g st crop yr) = Inr 0)"
proof (intro conjI impI)
  assume "model g (DataFrame st crop yr) = Inr (PyFloat y # ys)"
  then show "fst (predict_block g st crop yr) = Inr (exp y - 1)"
    by (simp add: predict_block_float expm1_def)
next
  assume "model g = stub_model (Inr [PyFloat 0])"
  then have "model g (DataFrame st crop yr) = Inr (PyFloat 0 # [])"
    by (simp add: stub_model_def)
  then show "fst (predict_block g st crop yr) = Inr 0"
    by (simp add: predict_block_float expm1_def)
qed

theorem prediction_is_expm1_of_first_witness:
  "model (loaded [] [] (stub_model (Inr [PyFloat 0])))
     (DataFrame (PyStr ''Selangor'') (PyStr ''Rice'') (PyInt 2023)) = Inr (PyFloat 0 # []) \<and>
   model (loaded [] [] (stub_model (Inr [PyFloat 0]))) = stub_model (Inr [PyFloat 0]) \<and>
   fst (predict_block (loaded [] [] (stub_model (Inr [PyFloat 0])))
          (PyStr ''Selangor'') (PyStr ''Rice'') (PyInt 2023)) = Inr 0"
  using prediction_is_expm1_of_first
    [of "loaded [] [] (stub_model (Inr [PyFloat 0]))"
        "PyStr ''Selangor''" "PyStr ''Rice''" "PyInt 2023" 0 "[]"]
  by (simp add: loaded_def stub_model_def)

section \<open>Failures of the prediction block\<close>

lemma predict_block_outcome:
  "fst (predict_block g st crop yr) =
     (case model g (DataFrame st crop yr) of
        Inl e \<Rightarrow> Inl e
      | Inr lp \<Rightarrow> (case item0 lp of Inl e \<Rightarrow> Inl e | Inr y \<Rightarrow> np_expm1 y))"
  by (simp add: predict_block_def Let_def split: sum.splits)

lemma predict_block_no_value:
  "fst (predict_block g st crop yr) = Inl e \<Longrightarrow>
     prediction (snd (predict_block g st crop yr)) = prediction g"
  by (simp add: predict_block_def Let_def split: sum.splits)

text \<open>
  C2, as the code has it. The script defines no \<open>InferenceError\<close> and catches
  nothing. When the model's \<^verbatim>\<open>predict\<close> raises, the block fails with that very
  exception; when it returns an empty sequence, indexing element 0 raises
  \<^verbatim>\<open>IndexError\<close>; when the first element is \<^verbatim>\<open>None\<close> or a string, \<^verbatim>\<open>np.expm1\<close>
  raises \<^verbatim>\<open>TypeError\<close>. In every failure \<^verbatim>\<open>prediction\<close> is left as it was, unbound
  in a fresh run: nothing is swallowed and no value is produced.
\<close>

theorem model_failure_propagates:
  "(model g (DataFrame st crop yr) = Inl e \<longrightarrow>
      fst (predict_block g st crop yr) = Inl e) \<and>
   (model g (DataFrame st crop yr) = Inr [] \<longrightarrow>
      fst (predict_block g st crop yr) = Inl (Raised ''IndexError'')) \<and>
   (model g (DataFrame st crop yr) = Inr (PyNone # vs) \<longrightarrow>
      fst (predict_block g st crop yr) = Inl (Raised ''TypeError'')) \<and>
   (model g (DataFrame st crop yr) = Inr (PyStr s # vs) \<longrightarrow>
      fst (predict_block g st crop yr) = Inl (Raised ''TypeError'')) \<and>
   (fst (predict_block g st crop yr) = Inl e' \<longrightarrow>
      prediction (snd (predict_block g st crop yr)) = prediction g)"
  by (simp add: predict_block_outcome predict_block_no_value item0_def np_expm1_def)

theorem model_failure_propagates_witness:
  "fst (predict_block (loaded [] [] (stub_model (Inl (Raised ''ValueError''))))
          (PyStr ''Selangor'') (PyStr ''Rice'') (PyInt 2023)) = Inl (Raised ''ValueError'') \<and>
   prediction (snd (predict_block (loaded [] [] (stub_model (Inl (Raised ''ValueError''))))
          (PyStr ''Selangor'') (PyStr ''Rice'') (PyInt 2023))) = None \<and>
   fst (predict_block (loaded [] [] (stub_model (Inr [])))
          (PyStr ''Selangor'') (PyStr ''Rice'') (PyInt 2023)) = Inl (Raised ''IndexError'') \<and>
   fst (predict_block (loaded [] [] (stub_model (Inr [PyNone])))
          (PyStr ''Selangor'') (PyStr ''Rice'') (PyInt 2023)) = Inl (Raised ''TypeError'') \<and>
   fst (predict_block (loaded [] [] (stub_model (Inr [PyStr ''high''])))
          (PyStr ''Selangor'') (PyStr ''Rice'') (PyInt 2023)) = Inl (Raised ''TypeError'')"
  using
    model_failure_propagates
      [of "loaded [] [] (stub_model (Inl (Raised ''ValueError'')))"
          "PyStr ''Selangor''" "PyStr ''Rice''" "PyInt 2023"
          "Raised ''ValueError''" "[]" "''high''" "Raised ''ValueError''"]
    model_failure_propagates
      [of "loaded [] [] (stub_model (Inr []))"
          "PyStr ''Selangor''" "PyStr ''Rice''" "PyInt 2023"
          "Raised ''ValueError''" "[]" "''high''" "Raised ''IndexError''"]
    model_failure_propagates
      [of "loaded [] [] (stub_model (Inr [PyNone]))"
          "PyStr ''Selangor''" "PyStr ''Rice''" "PyInt 2023"
          "Raised ''ValueError''" "[]" "''high''" "Raised ''TypeError''"]
    model_failure_propagates
      [of "loaded [] [] (stub_model (Inr [PyStr ''high'']))"
          "PyStr ''Selangor''" "PyStr ''Rice''" "PyInt 2023"
          "Raised ''ValueError''" "[]" "''high''" "Raised ''TypeError''"]
  by (simp add: loaded_def stub_model_def)

text \<open>
  C2 as stated fails: a model whose \<^verbatim>\<open>predict\<close> raises \<^verbatim>\<open>ValueError\<close> makes the block
  fail with \<^verbatim>\<open>ValueError\<close>, and one that returns an empty sequence makes it fail
  with \<^verbatim>\<open>IndexError\<close>; neither is \<open>InferenceError\<close>.
\<close>

theorem inference_error_counterexample:
  "fst (predict_block (loaded [] [] (stub_model (Inl (Raised ''ValueError''))))
          (PyStr ''Selangor'') (PyStr ''Rice'') (PyInt 2023)) = Inl (Raised ''ValueError'') \<and>
   fst (predict_block (loaded [] [] (stub_model (Inl (Raised ''ValueError''))))
          (PyStr ''Selangor'') (PyStr ''Rice'') (PyInt 2023)) \<noteq> Inl (Raised ''InferenceError'') \<and>
   fst (predict_block (loaded [] [] (stub_model (Inr [])))
          (PyStr ''Selangor'') (PyStr ''Rice'') (PyInt 2023)) = Inl (Raised ''IndexError'') \<and>
   fst (predict_block (loaded [] [] (stub_model (Inr [])))
          (PyStr ''Selangor'') (PyStr ''Rice'') (PyInt 2023)) \<noteq> Inl (Raised ''InferenceError'')"
  by (simp add: predict_block_outcome loaded_def stub_model_def item0_def)


lemma predict_block_success:
  "fst (predict_block g st crop yr) = Inr p \<Longrightarrow>
     \<exists>v vs. model g (DataFrame st crop yr) = Inr (v # vs) \<and>
       ((\<exists>y. v = PyFloat y \<and> p = exp y - 1) \<or>
        (\<exists>n. v = PyInt n \<and> p = exp (of_int n) - 1))"
  by (auto simp: predict_block_outcome item0_def np_expm1_def expm1_def
      split: sum.splits list.splits pyval.splits)

section \<open>The record handed to the model\<close>

text \<open>
  C4. After the block has run, \<^verbatim>\<open>input_df\<close> holds a frame whose columns are named
  \<open>state\<close>, \<open>crop_type\<close> and \<open>year\<close> and nothing else, each column has one cell,
  and the cells are the selected state, crop type and year. The model is called on
  this frame: the bound \<^verbatim>\<open>log_prediction\<close> and the block's outcome are what the model
  answers at it.
\<close>

theorem model_receives_single_row:
  "input_df (snd (predict_block g st crop yr)) = Some (DataFrame st crop yr) \<and>
   map fst (DataFrame st crop yr) = [''state'', ''crop_type'', ''year''] \<and>
   map (length \<circ> snd) (DataFrame st crop yr) = [1, 1, 1] \<and>
   map_of (DataFrame st crop yr) ''state'' = Some [st] \<and>
   map_of (DataFrame st crop yr) ''crop_type'' = Some [crop] \<and>
   map_of (DataFrame st crop yr) ''year'' = Some [yr] \<and>
   log_prediction (snd (predict_block g st crop yr)) =
     (case model g (DataFrame st crop yr) of
        Inl e \<Rightarrow> log_prediction g
      | Inr lp \<Rightarrow> Some lp) \<and>
   fst (predict_block g st crop yr) =
     (case model g (DataFrame st crop yr) of
        Inl e \<Rightarrow> Inl e
      | Inr lp \<Rightarrow> (case item0 lp of Inl e \<Rightarrow> Inl e | Inr y \<Rightarrow> np_expm1 y))"
proof -
  have "input_df (snd (predict_block g st crop yr)) = Some (DataFrame st crop yr)"
    by (simp add: predict_block_def Let_def split: sum.splits)
  moreover have "log_prediction (snd (predict_block g st crop yr)) =
     (case model g (DataFrame st crop yr) of
        Inl e \<Rightarrow> log_prediction g
      | Inr lp \<Rightarrow> Some lp)"
    by (simp add: predict_block_def Let_def split: sum.splits)
  ultimately show ?thesis
    by (simp add: predict_block_outcome) (simp add: DataFrame_def)
qed

section \<open>Non-negative predictions\<close>

text \<open>
  C7. For every state, crop type and year: when the model's answer for the request
  starts with a log-space value \<open>y \<ge> 0\<close>, the block returns a production value and
  that value is non-negative.
\<close>

theorem prediction_nonnegative:
  assumes "model g (DataFrame st crop yr) = Inr (PyFloat y # ys)" and "0 \<le> y"
  shows "\<exists>p. fst (predict_block g st crop yr) = Inr p \<and> 0 \<le> p"
proof -
  have "fst (predict_block g st crop yr) = Inr (expm1 y)"
    using assms(1) by (simp add: predict_block_float)
  moreover have "0 \<le> expm1 y"
    using assms(2) by (simp add: expm1_def)
  ultimately show ?thesis by blast
qed

theorem prediction_nonnegative_witness:
  "model (loaded [] [] (stub_model (Inr [PyFloat 2])))
     (DataFrame (PyStr ''Johor'') (PyStr ''Rice'') (PyInt 2024)) = Inr (PyFloat 2 # []) \<and>
   (0::real) \<le> 2 \<and>
   (\<exists>p. fst (predict_block (loaded [] [] (stub_model (Inr [PyFloat 2])))
            (PyStr ''Johor'') (PyStr ''Rice'') (PyInt 2024)) = Inr p \<and> 0 \<le> p)"
proof -
  have h: "model (loaded [] [] (stub_model (Inr [PyFloat 2])))
     (DataFrame (PyStr ''Johor'') (PyStr ''Rice'') (PyInt 2024)) = Inr (PyFloat 2 # [])"
    by (simp add: loaded_def stub_model_def)
  show ?thesis
    using h prediction_nonnegative [OF h] by simp
qed

section \<open>What the prediction leaves untouched\<close>

lemma predict_block_frame:
  "df (snd (predict_block g st crop yr)) = df g \<and>
   cluster_df (snd (predict_block g st crop yr)) = cluster_df g \<and>
   model (snd (predict_block g st crop yr)) = model g"
  by (simp add: predict_block_def Let_def split: sum.splits)

text \<open>
  C9. Running the prediction block, or the whole prediction page with or without a
  click, leaves the crop table, the cluster table and the model as they were. The
  only names the block binds are its own \<^verbatim>\<open>input_df\<close>, \<^verbatim>\<open>log_prediction\<close> and
  \<^verbatim>\<open>prediction\<close>.
\<close>

theorem prediction_leaves_tables_and_model:
  "df (snd (predict_block g st crop yr)) = df g \<and>
   cluster_df (snd (predict_block g st crop yr)) = cluster_df g \<and>
   model (snd (predict_block g st crop yr)) = model g \<and>
   df (snd (prediction_page g ui)) = df g \<and>
   cluster_df (snd (prediction_page g ui)) = cluster_df g \<and>
   model (snd (prediction_page g ui)) = model g"
proof -
  have "df (snd (prediction_page g ui)) = df g \<and>
        cluster_df (snd (prediction_page g ui)) = cluster_df g \<and>
        model (snd (prediction_page g ui)) = model g"
  proof (cases "prediction_request (df g) ui")
    case (Inl e)
    then show ?thesis by (simp add: prediction_page_def)
  next
    case (Inr req)
    obtain a b c where req: "req = (a, b, c)" by (cases req)
    obtain r g' where pb: "predict_block g a b c = (r, g')" by (cases "predict_block g a b c")
    have "df g' = df g \<and> cluster_df g' = cluster_df g \<and> model g' = model g"
      using predict_block_frame [of g a b c] pb by simp
    then show ?thesis
      using Inr req pb by (simp add: prediction_page_def split: sum.splits)
  qed
  then show ?thesis using predict_block_frame [of g st crop yr] by simp
qed

section \<open>The requests the page can build\<close>

lemma set_unique_from: "set (unique_from seen xs) = set xs - set seen"
  by (induction xs arbitrary: seen) auto

lemma set_unique: "set (unique xs) = set xs"
  by (simp add: unique_def set_unique_from)

lemma distinct_unique_from: "distinct (unique_from seen xs)"
  by (induction xs arbitrary: seen) (auto simp: set_unique_from)

lemma distinct_unique: "distinct (unique xs)"
  by (simp add: unique_def distinct_unique_from)












section \<open>Malformed requests\<close>




section \<open>The transforms of production values\<close>

text \<open>
  C5, as the code has it. On the prediction path the only transform is \<open>expm1\<close>:
  a value the block returns is \<open>exp y - 1\<close> for the first element \<open>y\<close> of the
  model's answer. The exploratory page transforms production values too, with a
  base-10 logarithm. Its chart table holds exactly the rows of the selected crop, in
  the table's order, each with \<^verbatim>\<open>np.log10(production + 1)\<close>; its totals table holds
  exactly one row per state of the table, in sorted order, each with the state's
  summed production and \<^verbatim>\<open>np.log10(total + 1)\<close>; and on a non-negative number \<open>x\<close>
  that value is \<open>log\<^sub>1\<^sub>0 (x + 1)\<close>.
\<close>

theorem transforms_of_production:
  "map fst (filtered d crop_selection) = filter (\<lambda>r. crop_type r = crop_selection) d \<and>
   ((r, v) \<in> set (filtered d crop_selection) \<longleftrightarrow>
      r \<in> set d \<and> crop_type r = crop_selection \<and> v = np_log10 (production r + 1)) \<and>
   map fst (state_total d) = sort (unique (map state d)) \<and>
   distinct (map fst (state_total d)) \<and>
   ((s, t, w) \<in> set (state_total d) \<longleftrightarrow>
      s \<in> set (map state d) \<and>
      t = sum_list (map production (filter (\<lambda>r. state r = s) d)) \<and>
      w = np_log10 (t + 1)) \<and>
   (0 \<le> x \<longrightarrow> np_log10 (x + 1) = Some (log 10 (x + 1))) \<and>
   (fst (predict_block g st crop yr) = Inr p \<longrightarrow>
      (\<exists>u us. model g (DataFrame st crop yr) = Inr (u # us) \<and>
         ((\<exists>y. u = PyFloat y \<and> p = exp y - 1) \<or>
          (\<exists>n. u = PyInt n \<and> p = exp (of_int n) - 1))))"
proof (intro conjI)
  show "map fst (filtered d crop_selection) = filter (\<lambda>r. crop_type r = crop_selection) d"
    by (simp add: filtered_def comp_def)
  show "(r, v) \<in> set (filtered d crop_selection) \<longleftrightarrow>
      r \<in> set d \<and> crop_type r = crop_selection \<and> v = np_log10 (production r + 1)"
    by (auto simp: filtered_def)
  show C: "map fst (state_total d) = sort (unique (map state d))"
    by (simp add: state_total_def Let_def comp_def)
  show "distinct (map fst (state_total d))"
    unfolding C by (simp add: distinct_unique)
  show "(s, t, w) \<in> set (state_total d) \<longleftrightarrow>
      s \<in> set (map state d) \<and>
      t = sum_list (map production (filter (\<lambda>r. state r = s) d)) \<and>
      w = np_log10 (t + 1)"
    by (auto simp: state_total_def Let_def set_unique)
  show "0 \<le> x \<longrightarrow> np_log10 (x + 1) = Some (log 10 (x + 1))"
    by (simp add: np_log10_def)
  show "fst (predict_block g st crop yr) = Inr p \<longrightarrow>
      (\<exists>u us. model g (DataFrame st crop yr) = Inr (u # us) \<and>
         ((\<exists>y. u = PyFloat y \<and> p = exp y - 1) \<or>
          (\<exists>n. u = PyInt n \<and> p = exp (of_int n) - 1)))"
    by (rule impI) (erule predict_block_success)
qed

theorem transforms_of_production_witness:
  "(0::real) \<le> 9 \<and> np_log10 (9 + 1) = Some 1 \<and>
   filtered [\<lparr>state = ''Johor'', crop_type = ''Rice'', year = 2020, production = 9\<rparr>] ''Rice'' =
     [(\<lparr>state = ''Johor'', crop_type = ''Rice'', year = 2020, production = 9\<rparr>, Some 1)] \<and>
   fst (predict_block (loaded [] [] (stub_model (Inr [PyFloat 0])))
          (PyStr ''Johor'') (PyStr ''Rice'') (PyInt 2023)) = Inr 0 \<and>
   model (loaded [] [] (stub_model (Inr [PyFloat 0])))
     (DataFrame (PyStr ''Johor'') (PyStr ''Rice'') (PyInt 2023)) = Inr (PyFloat 0 # [])"
  using transforms_of_production
    [of "[\<lparr>state = ''Johor'', crop_type = ''Rice'', year = 2020, production = 9\<rparr>]" "''Rice''"
        "\<lparr>state = ''Johor'', crop_type = ''Rice'', year = 2020, production = 9\<rparr>" "Some 1"
        "''Johor''" 9 "Some 1" 9
        "loaded [] [] (stub_model (Inr [PyFloat 0]))"
        "PyStr ''Johor''" "PyStr ''Rice''" "PyInt 2023" 0]
  by (simp add: filtered_def np_log10_def predict_block_outcome loaded_def stub_model_def
      item0_def np_expm1_def expm1_def)

lemma ln_10_not_1: "ln (10::real) \<noteq> 1"
proof
  assume "ln (10::real) = 1"
  then have "exp (ln (10::real)) = exp 1" by simp
  then have "(10::real) = exp 1" by simp
  moreover have "exp (1::real) \<le> 3" by (rule exp_le)
  ultimately show False by simp
qed

lemma exp_9_not_2: "exp (9::real) \<noteq> 2"
proof -
  have "1 + (9::real) \<le> exp 9" by (rule exp_ge_add_one_self)
  then show ?thesis by simp
qed

text \<open>
  C5 as stated fails: for a row with production 9 the exploratory page computes
  \<open>log\<^sub>1\<^sub>0 (9 + 1) = 1\<close>, for the row and for its state's total; that is neither
  \<^verbatim>\<open>log1p(9)\<close>, which is \<open>ln (1 + 9)\<close>, nor \<open>expm1 9\<close>.
\<close>

theorem log10_counterexample:
  "filtered [\<lparr>state = ''Johor'', crop_type = ''Rice'', year = 2020, production = 9\<rparr>] ''Rice'' =
     [(\<lparr>state = ''Johor'', crop_type = ''Rice'', year = 2020, production = 9\<rparr>, Some 1)] \<and>
   state_total [\<lparr>state = ''Johor'', crop_type = ''Rice'', year = 2020, production = 9\<rparr>] =
     [(''Johor'', 9, Some 1)] \<and>
   ln (1 + 9 :: real) \<noteq> 1 \<and> expm1 9 \<noteq> 1"
  using ln_10_not_1 exp_9_not_2
  by (simp add: filtered_def state_total_def unique_def np_log10_def expm1_def)

section \<open>The year of a request\<close>

text \<open>
  C8 at a table whose last observed year lies before 2020: one row, of year 2015.
  The slider is given the bounds 2015 and 2018 and the default 2023, so it renders
  the range from 2015 to 2023, and the untouched page builds a request for 2023,
  five years past the bound 2018.
\<close>

theorem year_default_outside_bounds:
  "series_min (map year [\<lparr>state = ''Johor'', crop_type = ''Rice'', year = 2015, production = 1\<rparr>]) =
     Some 2015 \<and>
   series_max (map year [\<lparr>state = ''Johor'', crop_type = ''Rice'', year = 2015, production = 1\<rparr>]) =
     Some 2015 \<and>
   slider_bounds 2015 (2015 + 3) 2023 = (2015, 2023) \<and>
   prediction_request
     [\<lparr>state = ''Johor'', crop_type = ''Rice'', year = 2015, production = 1\<rparr>]
     \<lparr>picked_state = None, picked_crop = None, picked_year = None, button = True\<rparr> =
     Inr (PyStr ''Johor'', PyStr ''Rice'', PyInt 2023) \<and>
   \<not> ((2023::int) \<le> 2015 + 3)"
  by (simp add: prediction_request_def Let_def series_min_def series_max_def py_int_def
      selectbox_def slider_def slider_bounds_def unique_def)

text \<open>
  C10 at a table whose last observed year lies before 2020: two rows, of years 2012
  and 2016. The state and the crop type of the request occur in the table, but the
  slider, given the bounds 2012 and 2019 and the default 2023, renders the range
  from 2012 to 2023, and a pick of 2021 gives a request for 2021, past the bound
  2019.
\<close>

theorem year_pick_outside_bounds:
  "prediction_request
     [\<lparr>state = ''Selangor'', crop_type = ''Rice'', year = 2012, production = 5\<rparr>,
      \<lparr>state = ''Johor'', crop_type = ''Durian'', year = 2016, production = 7\<rparr>]
     \<lparr>picked_state = Some 1, picked_crop = None, picked_year = Some 2021, button = True\<rparr> =
     Inr (PyStr ''Selangor'', PyStr ''Durian'', PyInt 2021) \<and>
   series_min (map year
     [\<lparr>state = ''Selangor'', crop_type = ''Rice'', year = 2012, production = 5\<rparr>,
      \<lparr>state = ''Johor'', crop_type = ''Durian'', year = 2016, production = 7\<rparr>]) = Some 2012 \<and>
   series_max (map year
     [\<lparr>state = ''Selangor'', crop_type = ''Rice'', year = 2012, production = 5\<rparr>,
      \<lparr>state = ''Johor'', crop_type = ''Durian'', year = 2016, production = 7\<rparr>]) = Some 2016 \<and>
   slider_bounds 2012 (2016 + 3) 2023 = (2012, 2023) \<and>
   \<not> ((2021::int) \<le> 2016 + 3)"
  by (simp add: prediction_request_def Let_def series_min_def series_max_def py_int_def
      selectbox_def slider_def slider_bounds_def unique_def)

end
